theory Spec2Isabelle
  imports Main "HOL-Library.AList" "HOL-Library.Sublist"
begin

section \<open>Values\<close>

text \<open>
  The JavaScript values that JSON carries, and \<^verbatim>\<open>undefined\<close> (what reading a missing
  property gives). An object is an association list of its own properties in insertion
  order, with distinct keys; numbers are integers and strings are ASCII (nothing below
  depends on a fraction or on a character outside ASCII).
\<close>

datatype json =
    JUndefined
  | JNull
  | JBool bool
  | JNum int
  | JStr string
  | JArr "json list"
  | JObj "(string \<times> json) list"

text \<open>Decimal rendering of a non-negative integer, as a template string renders it.\<close>

definition digit_char :: "nat \<Rightarrow> char" where
  "digit_char d = ''0123456789'' ! d"

function show_nat :: "nat \<Rightarrow> string" where
  "show_nat n = (if n < 10 then [digit_char n] else show_nat (n div 10) @ [digit_char (n mod 10)])"
  by pat_completeness auto
termination
  by (relation "measure (\<lambda>n. n)") auto

declare show_nat.simps [simp del]

section \<open>Error classes (lib/errors.ts)\<close>

datatype error_class = TripItError | AuthenticationError | NotFoundError | ProRequiredError

text \<open>
  A value that a \<^verbatim>\<open>throw\<close> can carry: an instance of \<^verbatim>\<open>TripItError\<close> or of one of its
  subclasses (class, statusCode, details, message), any other \<^verbatim>\<open>Error\<close> instance (name,
  message), or a value that is no \<^verbatim>\<open>Error\<close> at all, given by its \<^verbatim>\<open>String()\<close> rendering.
\<close>

datatype thrown =
    TripItErr error_class nat string string
  | JsError string string
  | NonError string

definition new_TripItError :: "nat \<Rightarrow> string \<Rightarrow> thrown" where
  "new_TripItError statusCode details =
     TripItErr TripItError statusCode details
       (''TripIt API error ('' @ show_nat statusCode @ ''): '' @ details)"

definition new_AuthenticationError :: "string \<Rightarrow> thrown" where
  "new_AuthenticationError details =
     TripItErr AuthenticationError 401 details
       (''TripIt API error ('' @ show_nat 401 @ ''): '' @ details)"

definition new_NotFoundError :: "string \<Rightarrow> string \<Rightarrow> thrown" where
  "new_NotFoundError resource ident =
     (let details = resource @ '' with ID '' @ ident @ '' not found''
      in TripItErr NotFoundError 404 details
           (''TripIt API error ('' @ show_nat 404 @ ''): '' @ details))"

definition new_ProRequiredError :: "string \<Rightarrow> thrown" where
  "new_ProRequiredError feature =
     (let details = feature @ '' requires TripIt Pro subscription''
      in TripItErr ProRequiredError 403 details
           (''TripIt API error ('' @ show_nat 403 @ ''): '' @ details))"

fun instanceof_TripItError :: "thrown \<Rightarrow> bool" where
  "instanceof_TripItError (TripItErr c s d m) = True"
| "instanceof_TripItError e = False"

fun instanceof_AuthenticationError :: "thrown \<Rightarrow> bool" where
  "instanceof_AuthenticationError (TripItErr c s d m) = (c = AuthenticationError)"
| "instanceof_AuthenticationError e = False"

fun instanceof_NotFoundError :: "thrown \<Rightarrow> bool" where
  "instanceof_NotFoundError (TripItErr c s d m) = (c = NotFoundError)"
| "instanceof_NotFoundError e = False"

fun instanceof_Error :: "thrown \<Rightarrow> bool" where
  "instanceof_Error (NonError s) = False"
| "instanceof_Error e = True"

text \<open>\<^verbatim>\<open>String(error)\<close>: an \<^verbatim>\<open>Error\<close> renders as its name and message.\<close>

definition error_toString :: "string \<Rightarrow> string \<Rightarrow> string" where
  "error_toString nm msg =
     (if nm = [] then msg else if msg = [] then nm else nm @ '': '' @ msg)"

fun class_name :: "error_class \<Rightarrow> string" where
  "class_name TripItError = ''TripItError''"
| "class_name AuthenticationError = ''AuthenticationError''"
| "class_name NotFoundError = ''NotFoundError''"
| "class_name ProRequiredError = ''ProRequiredError''"

fun String_of :: "thrown \<Rightarrow> string" where
  "String_of (TripItErr c s d m) = error_toString (class_name c) m"
| "String_of (JsError nm m) = error_toString nm m"
| "String_of (NonError s) = s"

text \<open>
  The result of a tool: the text of each content block, and the \<^verbatim>\<open>isError\<close> field
  (\<open>None\<close> when the object has no such field).
\<close>

record tool_result =
  content :: "string list"
  isError :: "bool option"

fun handleTripItError :: "thrown \<Rightarrow> tool_result" where
  "handleTripItError (TripItErr c statusCode details message) =
     (if statusCode = 401 then
        \<lparr>content = [''TripIt authentication expired. Please re-authorize at /oauth/start''],
         isError = Some True\<rparr>
      else if statusCode = 404 then \<lparr>content = [message], isError = Some True\<rparr>
      else if statusCode = 403 then \<lparr>content = [message], isError = Some True\<rparr>
      else \<lparr>content = [''TripIt error: '' @ details], isError = Some True\<rparr>)"
| "handleTripItError e =
     \<lparr>content = [''An unexpected error occurred. Please try again.''], isError = Some True\<rparr>"

section \<open>The client's request loop (tripit/client.ts)\<close>

definition BASE_URL :: string where
  "BASE_URL = ''https://api.tripit.com/v1''"

definition MAX_RETRIES :: nat where
  "MAX_RETRIES = 3"

definition BASE_DELAY_MS :: int where
  "BASE_DELAY_MS = 1000"

definition MIN_REQUEST_INTERVAL_MS :: int where
  "MIN_REQUEST_INTERVAL_MS = 400"

datatype http_method = GET | POST

text \<open>
  What \<^verbatim>\<open>fetch\<close> gives back: a rejection (no response), or a response with its status
  and the outcomes of reading its body as text and as JSON (either read can reject).
\<close>

record response =
  status :: nat
  text_body :: "thrown + string"
  json_body :: "thrown + json"

datatype fetch_outcome = Rejected thrown | Resolved response

definition ok :: "response \<Rightarrow> bool" where
  "ok r = (200 \<le> status r \<and> status r \<le> 299)"

text \<open>
  The surroundings of one logical call. The signing library draws a fresh nonce and
  timestamp on every call, so its result is indexed by the attempt; the network's answer
  to the k-th attempt is \<open>fetch k\<close>, obtained after \<open>fetch_ms k\<close> milliseconds;
  \<open>encode\<close> stands for \<^verbatim>\<open>encodeURIComponent(JSON.stringify(body))\<close>.
\<close>

record env =
  signRequest :: "nat \<Rightarrow> http_method \<Rightarrow> string \<Rightarrow> string \<Rightarrow> string \<Rightarrow> (string \<times> string) list"
  encode :: "json \<Rightarrow> string"
  fetch :: "nat \<Rightarrow> fetch_outcome"
  fetch_ms :: "nat \<Rightarrow> nat"

record client =
  accessToken :: string
  accessTokenSecret :: string
  lastRequestTime :: int

text \<open>
  What a logical call does, in order: a throttle wait, a request handed to \<^verbatim>\<open>fetch\<close>
  (method, URL, headers, body), a backoff wait. Times are in milliseconds.
\<close>

datatype event =
    ThrottleWait int
  | Fetch http_method string "(string \<times> string) list" "string option"
  | BackoffWait int

text \<open>
  \<^verbatim>\<open>throttle\<close>: the clock is passed in and returned; a timer is taken to fire exactly
  when it is due.
\<close>

definition throttle :: "client \<Rightarrow> int \<Rightarrow> event list \<times> client \<times> int" where
  "throttle c now =
     (let elapsed = now - lastRequestTime c in
      if elapsed < MIN_REQUEST_INTERVAL_MS then
        (let now' = now + (MIN_REQUEST_INTERVAL_MS - elapsed)
         in ([ThrottleWait (MIN_REQUEST_INTERVAL_MS - elapsed)], c\<lparr>lastRequestTime := now'\<rparr>, now'))
      else ([], c\<lparr>lastRequestTime := now\<rparr>, now))"

text \<open>How the \<^verbatim>\<open>try\<close> block of one attempt ends.\<close>

datatype completion =
    Returns json
  | Continues thrown
  | Throws thrown

definition try_block ::
  "env \<Rightarrow> client \<Rightarrow> http_method \<Rightarrow> string \<Rightarrow> string \<Rightarrow> json option \<Rightarrow> nat
     \<Rightarrow> event list \<times> completion" where
  "try_block E c method url path body attempt =
     (let requestUrl = (if method = GET then url @ ''/format/json'' else url);
          headers = signRequest E attempt method requestUrl (accessToken c) (accessTokenSecret c);
          options_headers =
            AList.update ''Content-Type'' ''application/x-www-form-urlencoded'' headers;
          options_body =
            (case body of
               None \<Rightarrow> None
             | Some b \<Rightarrow> if method = POST then Some (''format=json&json='' @ encode E b) else None);
          sent = Fetch method requestUrl options_headers options_body
      in case fetch E attempt of
           Rejected e \<Rightarrow> ([sent], Throws e)
         | Resolved r \<Rightarrow>
             if status r = 401 then ([sent], Throws (new_AuthenticationError ''Authentication failed''))
             else if status r = 404 then ([sent], Throws (new_NotFoundError ''resource'' path))
             else if status r = 429 \<or> status r \<ge> 500 then
               ([sent, BackoffWait (BASE_DELAY_MS * 2 ^ attempt)],
                Continues (new_TripItError (status r) (''Server error: '' @ show_nat (status r))))
             else if \<not> ok r then
               (case text_body r of
                  Inl e \<Rightarrow> ([sent], Throws e)
                | Inr text \<Rightarrow> ([sent], Throws (new_TripItError (status r) text)))
             else
               (case json_body r of
                  Inl e \<Rightarrow> ([sent], Throws e)
                | Inr v \<Rightarrow> ([sent], Returns v)))"

text \<open>
  One iteration of the loop: throttle, the \<^verbatim>\<open>try\<close> block, and the \<^verbatim>\<open>catch\<close> clause. The
  iteration either ends the call (with a payload or an error) or hands the next
  iteration the new \<^verbatim>\<open>lastError\<close>.
\<close>

datatype step =
    Done "thrown + json"
  | Next "thrown option"

definition wait_ms :: "event \<Rightarrow> int" where
  "wait_ms e = (case e of BackoffWait d \<Rightarrow> d | ThrottleWait d \<Rightarrow> d | Fetch m u h b \<Rightarrow> 0)"

definition iteration ::
  "env \<Rightarrow> http_method \<Rightarrow> string \<Rightarrow> string \<Rightarrow> json option \<Rightarrow> nat \<Rightarrow> client \<Rightarrow> int
     \<Rightarrow> step \<times> client \<times> int \<times> event list" where
  "iteration E method url path body attempt c now =
     (let (ev1, c1, now1) = throttle c now;
          (ev2, completion) = try_block E c1 method url path body attempt;
          now2 = now1 + int (fetch_ms E attempt) + sum_list (map wait_ms ev2)
      in case completion of
           Returns v \<Rightarrow> (Done (Inr v), c1, now2, ev1 @ ev2)
         | Continues e \<Rightarrow> (Next (Some e), c1, now2, ev1 @ ev2)
         | Throws error \<Rightarrow>
             if instanceof_AuthenticationError error \<or> instanceof_NotFoundError error then
               (Done (Inl error), c1, now2, ev1 @ ev2)
             else
               (let lastError =
                      (if instanceof_TripItError error then error
                       else new_TripItError 0 (String_of error));
                    delay = BASE_DELAY_MS * 2 ^ attempt
                in (Next (Some lastError), c1, now2 + delay, ev1 @ ev2 @ [BackoffWait delay])))"

function request_loop ::
  "env \<Rightarrow> http_method \<Rightarrow> string \<Rightarrow> string \<Rightarrow> json option \<Rightarrow> nat \<Rightarrow> client \<Rightarrow> int
     \<Rightarrow> thrown option \<Rightarrow> (thrown + json) \<times> client \<times> int \<times> event list" where
  "request_loop E method url path body attempt c now lastError =
     (if attempt < MAX_RETRIES then
        (case iteration E method url path body attempt c now of
           (Done r, c', now', ev) \<Rightarrow> (r, c', now', ev)
         | (Next lastError', c', now', ev) \<Rightarrow>
             (case request_loop E method url path body (Suc attempt) c' now' lastError' of
                (r, c'', now'', ev') \<Rightarrow> (r, c'', now'', ev @ ev')))
      else
        (Inl (case lastError of
                Some e \<Rightarrow> e
              | None \<Rightarrow> new_TripItError 0 ''Request failed after retries''),
         c, now, []))"
  by pat_completeness auto
termination
  by (relation "measure (\<lambda>(E, method, url, path, body, attempt, c, now, lastError). MAX_RETRIES - attempt)")
     auto

declare request_loop.simps [simp del]

definition request ::
  "env \<Rightarrow> client \<Rightarrow> int \<Rightarrow> http_method \<Rightarrow> string \<Rightarrow> json option
     \<Rightarrow> (thrown + json) \<times> client \<times> int \<times> event list" where
  "request E c now method path body =
     request_loop E method (BASE_URL @ path) path body 0 c now None"


section \<open>Creating travel objects (tripit/client.ts)\<close>


text \<open>
  Reading a property of an object literal, or asking whether a name is \<^verbatim>\<open>in\<close> it, also
  finds the members every object inherits from \<^verbatim>\<open>Object.prototype\<close>. None of them is a
  string.
\<close>

definition Object_prototype_names :: "string list" where
  "Object_prototype_names =
     [''constructor'', ''__defineGetter__'', ''__defineSetter__'', ''hasOwnProperty'',
      ''__lookupGetter__'', ''__lookupSetter__'', ''isPrototypeOf'', ''propertyIsEnumerable'',
      ''toString'', ''valueOf'', ''__proto__'', ''toLocaleString'']"





section \<open>JavaScript operations on values\<close>

definition truthy :: "json \<Rightarrow> bool" where
  "truthy v =
     (case v of
        JUndefined \<Rightarrow> False
      | JNull \<Rightarrow> False
      | JBool b \<Rightarrow> b
      | JNum n \<Rightarrow> n \<noteq> 0
      | JStr s \<Rightarrow> s \<noteq> []
      | JArr xs \<Rightarrow> True
      | JObj kv \<Rightarrow> True)"

definition nullish :: "json \<Rightarrow> bool" where
  "nullish v = (v = JUndefined \<or> v = JNull)"

text \<open>
  Reading property \<open>k\<close> of a value that is neither \<^verbatim>\<open>null\<close> nor \<^verbatim>\<open>undefined\<close>. None of the
  property names read below is defined on a string, a number, a boolean or an array, so
  only an object can have it.
\<close>

definition get_prop :: "json \<Rightarrow> string \<Rightarrow> json" where
  "get_prop v k =
     (case v of
        JObj kv \<Rightarrow> (case map_of kv k of Some x \<Rightarrow> x | None \<Rightarrow> JUndefined)
      | _ \<Rightarrow> JUndefined)"

text \<open>
  What the platform supplies: \<^verbatim>\<open>JSON.stringify(v, null, 2)\<close>;
  \<^verbatim>\<open>Math.floor(Date.parse(s) / 1000)\<close> for a string \<open>s\<close>; the text of a number; the message
  of the \<^verbatim>\<open>TypeError\<close> raised by reading property \<open>k\<close> of \<^verbatim>\<open>null\<close> or \<^verbatim>\<open>undefined\<close>; and the
  message of the \<^verbatim>\<open>TypeError\<close> raised when an object cannot be converted to a primitive
  value.
\<close>

record platform =
  stringify :: "json \<Rightarrow> string"
  epoch_seconds :: "string \<Rightarrow> json"
  number_text :: "int \<Rightarrow> string"
  type_error_message :: "json \<Rightarrow> string \<Rightarrow> string"
  cannot_convert :: string

text \<open>Sequencing of steps that can raise: the first one that raises ends the sequence.\<close>

definition and_then :: "thrown + 'a \<Rightarrow> ('a \<Rightarrow> thrown + 'b) \<Rightarrow> thrown + 'b" where
  "and_then r f = (case r of Inl e \<Rightarrow> Inl e | Inr v \<Rightarrow> f v)"

definition read_prop :: "platform \<Rightarrow> json \<Rightarrow> string \<Rightarrow> thrown + json" where
  "read_prop P v k =
     (if nullish v then Inl (JsError ''TypeError'' (type_error_message P v k))
      else Inr (get_prop v k))"

fun join :: "string \<Rightarrow> string list \<Rightarrow> string" where
  "join sep [] = []"
| "join sep [x] = x"
| "join sep (x # y # ys) = x @ sep @ join sep (y # ys)"

text \<open>
  The conversion of a value to a string, which a template string, \<^verbatim>\<open>Date.parse\<close> and the
  left operand of \<^verbatim>\<open>in\<close> apply. An object converts through its \<^verbatim>\<open>toString\<close>: the inherited
  one gives "[object Object]"; an own property of that name holds a value that cannot be
  called, the inherited \<^verbatim>\<open>valueOf\<close> gives back the object, and the conversion raises a
  \<^verbatim>\<open>TypeError\<close>. An array joins the conversions of its elements with commas, \<^verbatim>\<open>null\<close> and
  \<^verbatim>\<open>undefined\<close> counting as empty.
\<close>

fun js_String :: "platform \<Rightarrow> json \<Rightarrow> thrown + string"
  and js_join :: "platform \<Rightarrow> json list \<Rightarrow> thrown + string list" where
  "js_String P JUndefined = Inr ''undefined''"
| "js_String P JNull = Inr ''null''"
| "js_String P (JBool b) = Inr (if b then ''true'' else ''false'')"
| "js_String P (JNum n) = Inr (number_text P n)"
| "js_String P (JStr s) = Inr s"
| "js_String P (JArr xs) =
     (case js_join P xs of
        Inl e \<Rightarrow> Inl e
      | Inr parts \<Rightarrow> Inr (join '','' parts))"
| "js_String P (JObj kv) =
     (case map_of kv ''toString'' of
        Some v \<Rightarrow> Inl (JsError ''TypeError'' (cannot_convert P))
      | None \<Rightarrow> Inr ''[object Object]'')"
| "js_join P [] = Inr []"
| "js_join P (x # xs) =
     (case (if x = JUndefined \<or> x = JNull then Inr [] else js_String P x) of
        Inl e \<Rightarrow> Inl e
      | Inr part \<Rightarrow>
          (case js_join P xs of
             Inl e \<Rightarrow> Inl e
           | Inr parts \<Rightarrow> Inr (part # parts)))"

text \<open>The template string \<^verbatim>\<open>`${a}sep${b}`\<close>.\<close>

definition template2 :: "platform \<Rightarrow> json \<Rightarrow> string \<Rightarrow> json \<Rightarrow> thrown + string" where
  "template2 P a sep b =
     and_then (js_String P a) (\<lambda>x. and_then (js_String P b) (\<lambda>y. Inr (x @ sep @ y)))"

section \<open>Tool handlers (mcp/tools)\<close>

text \<open>
  The operations of the client that the tools call, with their arguments. A client is
  what answers them: a payload, or a thrown value.
\<close>

datatype client_call =
    ListTrips json
  | GetTrip json bool
  | CreateTrip json
  | UpdateTrip json json
  | DeleteTrip json
  | ListObjects json json
  | GetObject json json
  | CreateFlight json json
  | CreateHotel json json
  | CreateCar json json
  | CreateActivity json json
  | UpdateObject json json json
  | DeleteObject json json
  | GetFlightStatus json
  | ListPointsPrograms
  | GetProfile

type_synonym client_ops = "client_call \<Rightarrow> thrown + json"

text \<open>The names registered by each module, in source order.\<close>

definition tripTools :: "string list" where
  "tripTools =
     [''tripit_list_trips'', ''tripit_get_trip'', ''tripit_create_trip'', ''tripit_update_trip'',
      ''tripit_delete_trip'']"

definition objectTools :: "string list" where
  "objectTools =
     [''tripit_list_objects'', ''tripit_get_object'', ''tripit_create_flight'',
      ''tripit_create_hotel'', ''tripit_create_car'', ''tripit_create_activity'',
      ''tripit_update_object'', ''tripit_delete_object'']"

definition proTools :: "string list" where
  "proTools =
     [''tripit_get_flight_status'', ''tripit_list_points_programs'', ''tripit_get_profile'']"

definition allTools :: "string list" where
  "allTools = tripTools @ objectTools @ proTools"

text \<open>
  \<^verbatim>\<open>name in tools\<close>: the name is converted to a property key, which can raise, and looked
  for among the own and the inherited names.
\<close>

definition has_property :: "platform \<Rightarrow> string list \<Rightarrow> json \<Rightarrow> thrown + bool" where
  "has_property P keys name =
     and_then (js_String P name)
       (\<lambda>key. Inr (key \<in> set keys \<or> key \<in> set Object_prototype_names))"

definition text_result :: "string \<Rightarrow> tool_result" where
  "text_result t = \<lparr>content = [t], isError = None\<rparr>"

definition error_result :: "string \<Rightarrow> tool_result" where
  "error_result t = \<lparr>content = [t], isError = Some True\<rparr>"

text \<open>The result \<^verbatim>\<open>`Unknown tool: ${name}`\<close>, marked as an error.\<close>

definition unknown_tool :: "platform \<Rightarrow> json \<Rightarrow> thrown + tool_result" where
  "unknown_tool P name =
     and_then (js_String P name) (\<lambda>n. Inr (error_result (''Unknown tool: '' @ n)))"

text \<open>
  An object literal whose properties are read from \<open>args\<close> under the same names; \<open>args\<close>
  is neither \<^verbatim>\<open>null\<close> nor \<^verbatim>\<open>undefined\<close> where it is used.
\<close>

definition pick :: "json \<Rightarrow> string list \<Rightarrow> json" where
  "pick args keys = JObj (map (\<lambda>k. (k, get_prop args k)) keys)"

text \<open>The answer of a client operation, rendered as the tool's text.\<close>

definition rendered :: "platform \<Rightarrow> thrown + json \<Rightarrow> thrown + tool_result" where
  "rendered P answer =
     (case answer of
        Inl e \<Rightarrow> Inl e
      | Inr payload \<Rightarrow> Inr (text_result (stringify P payload)))"

text \<open>
  The own enumerable properties that \<^verbatim>\<open>const { trip_id, ...updates } = args\<close> copies into
  \<^verbatim>\<open>updates\<close>.
\<close>

definition rest_without_trip_id :: "json \<Rightarrow> json" where
  "rest_without_trip_id args =
     (case args of
        JObj kv \<Rightarrow> JObj (filter (\<lambda>(k, v). k \<noteq> ''trip_id'') kv)
      | JArr xs \<Rightarrow> JObj (map (\<lambda>(i, x). (show_nat i, x)) (enumerate 0 xs))
      | JStr s \<Rightarrow> JObj (map (\<lambda>(i, ch). (show_nat i, JStr [ch])) (enumerate 0 s))
      | _ \<Rightarrow> JObj [])"

text \<open>
  The \<^verbatim>\<open>try\<close> block of \<^verbatim>\<open>handleTripTool\<close>: the \<^verbatim>\<open>switch\<close> over the tool name. In each case
  the first read of a property of \<open>args\<close> raises when \<open>args\<close> is \<^verbatim>\<open>null\<close> or \<^verbatim>\<open>undefined\<close>;
  \<^verbatim>\<open>Date.parse\<close> and the template strings convert their operand to a string, which can
  raise; all of it happens in the order of the source.
\<close>

definition tripTool_body :: "platform \<Rightarrow> client_ops \<Rightarrow> json \<Rightarrow> json \<Rightarrow> thrown + tool_result" where
  "tripTool_body P client name args =
     (if name = JStr ''tripit_list_trips'' then
        and_then (read_prop P args ''include_past'') (\<lambda>past.
        and_then
          (if truthy (get_prop args ''modified_since'')
           then and_then (js_String P (get_prop args ''modified_since''))
                  (\<lambda>s. Inr (epoch_seconds P s))
           else Inr JUndefined) (\<lambda>modifiedSince.
        rendered P (client (ListTrips (JObj
          [(''past'', past),
           (''modifiedSince'', modifiedSince),
           (''includeObjects'', get_prop args ''include_objects''),
           (''page'', get_prop args ''page''),
           (''pageSize'', get_prop args ''page_size'')])))))
      else if name = JStr ''tripit_get_trip'' then
        and_then (read_prop P args ''trip_id'') (\<lambda>trip_id.
        rendered P (client (GetTrip trip_id (get_prop args ''include_objects'' \<noteq> JBool False))))
      else if name = JStr ''tripit_create_trip'' then
        and_then (read_prop P args ''display_name'') (\<lambda>display_name.
        rendered P (client (CreateTrip (pick args
          [''display_name'', ''start_date'', ''end_date'', ''primary_location'', ''description'']))))
      else if name = JStr ''tripit_update_trip'' then
        and_then (read_prop P args ''trip_id'') (\<lambda>trip_id.
        rendered P (client (UpdateTrip trip_id (rest_without_trip_id args))))
      else if name = JStr ''tripit_delete_trip'' then
        and_then (read_prop P args ''trip_id'') (\<lambda>trip_id.
        and_then (client (DeleteTrip trip_id)) (\<lambda>done.
        and_then (js_String P trip_id) (\<lambda>t.
        Inr (text_result (''Trip '' @ t @ '' deleted successfully.'')))))
      else unknown_tool P name)"

definition handleTripTool :: "platform \<Rightarrow> client_ops \<Rightarrow> json \<Rightarrow> json \<Rightarrow> tool_result" where
  "handleTripTool P client name args =
     (case tripTool_body P client name args of
        Inl error \<Rightarrow> handleTripItError error
      | Inr r \<Rightarrow> r)"

definition objectTool_body :: "platform \<Rightarrow> client_ops \<Rightarrow> json \<Rightarrow> json \<Rightarrow> thrown + tool_result" where
  "objectTool_body P client name args =
     (if name = JStr ''tripit_list_objects'' then
        and_then (read_prop P args ''object_type'') (\<lambda>object_type.
        rendered P (client (ListObjects object_type (get_prop args ''trip_id''))))
      else if name = JStr ''tripit_get_object'' then
        and_then (read_prop P args ''object_type'') (\<lambda>object_type.
        rendered P (client (GetObject object_type (get_prop args ''object_id''))))
      else if name = JStr ''tripit_create_flight'' then
        and_then (read_prop P args ''segments'') (\<lambda>segments.
        rendered P (client (CreateFlight segments (get_prop args ''trip_id''))))
      else if name = JStr ''tripit_create_hotel'' then
        and_then (read_prop P args ''supplier_name'') (\<lambda>supplier_name.
        rendered P (client (CreateHotel
          (pick args
             [''supplier_name'', ''start_date'', ''end_date'', ''check_in_time'', ''check_out_time'',
              ''confirmation_num'', ''address'', ''phone'', ''room_type'', ''notes''])
          (get_prop args ''trip_id''))))
      else if name = JStr ''tripit_create_car'' then
        and_then (read_prop P args ''supplier_name'') (\<lambda>supplier_name.
        rendered P (client (CreateCar
          (pick args
             [''supplier_name'', ''start_date'', ''end_date'', ''start_time'', ''end_time'',
              ''pickup_location'', ''dropoff_location'', ''car_type'', ''confirmation_num''])
          (get_prop args ''trip_id''))))
      else if name = JStr ''tripit_create_activity'' then
        and_then (read_prop P args ''display_name'') (\<lambda>display_name.
        rendered P (client (CreateActivity
          (pick args
             [''display_name'', ''start_date'', ''start_time'', ''end_date'', ''end_time'',
              ''location_name'', ''address'', ''notes''])
          (get_prop args ''trip_id''))))
      else if name = JStr ''tripit_update_object'' then
        and_then (read_prop P args ''object_type'') (\<lambda>object_type.
        rendered P (client (UpdateObject object_type (get_prop args ''object_id'')
          (get_prop args ''data''))))
      else if name = JStr ''tripit_delete_object'' then
        and_then (read_prop P args ''object_type'') (\<lambda>object_type.
        and_then (client (DeleteObject object_type (get_prop args ''object_id''))) (\<lambda>done.
        and_then (template2 P object_type '' '' (get_prop args ''object_id'')) (\<lambda>t.
        Inr (text_result (t @ '' deleted successfully.'')))))
      else unknown_tool P name)"

definition handleObjectTool :: "platform \<Rightarrow> client_ops \<Rightarrow> json \<Rightarrow> json \<Rightarrow> tool_result" where
  "handleObjectTool P client name args =
     (case objectTool_body P client name args of
        Inl error \<Rightarrow> handleTripItError error
      | Inr r \<Rightarrow> r)"

text \<open>\<^verbatim>\<open>seg.Status?.k\<close> and \<^verbatim>\<open>v ?? null\<close>.\<close>

definition optional_prop :: "json \<Rightarrow> string \<Rightarrow> json" where
  "optional_prop v k = (if nullish v then JUndefined else get_prop v k)"

definition or_null :: "json \<Rightarrow> json" where
  "or_null v = (if nullish v then JNull else v)"

text \<open>The arrow of the route text, U+2192, in UTF-8.\<close>

definition arrow :: string where
  "arrow = [char_of (226 :: nat), char_of (134 :: nat), char_of (146 :: nat)]"

text \<open>
  The status record built for one segment. Reading a segment that is \<^verbatim>\<open>null\<close> or
  \<^verbatim>\<open>undefined\<close> raises, and so can each template string.
\<close>

definition segment_status :: "platform \<Rightarrow> json \<Rightarrow> thrown + json" where
  "segment_status P seg =
     and_then (read_prop P seg ''marketing_airline_code'') (\<lambda>airline.
     and_then (template2 P airline [] (get_prop seg ''marketing_flight_number'')) (\<lambda>flight.
     and_then (template2 P (get_prop seg ''start_airport_code'') ('' '' @ arrow @ '' '')
                 (get_prop seg ''end_airport_code'')) (\<lambda>route.
     (let st = get_prop seg ''Status'';
          sdt = get_prop seg ''StartDateTime'';
          edt = optional_prop st ''EstimatedDepartureDateTime''
      in and_then
           (if truthy sdt then template2 P (get_prop sdt ''date'') '' '' (get_prop sdt ''time'')
            else template2 P (get_prop seg ''start_date'') '' '' (get_prop seg ''start_time''))
           (\<lambda>scheduled.
         and_then
           (if truthy (optional_prop edt ''date'')
            then and_then (template2 P (get_prop edt ''date'') '' '' (get_prop edt ''time''))
                   (\<lambda>t. Inr (JStr t))
            else Inr JNull)
           (\<lambda>estimated.
         Inr (JObj
           [(''flight'', JStr flight),
            (''route'', JStr route),
            (''status'',
               if truthy (optional_prop st ''flight_status'') then optional_prop st ''flight_status''
               else JStr ''Not monitored''),
            (''scheduled_departure'', JStr scheduled),
            (''estimated_departure'', estimated),
            (''departure_gate'', or_null (optional_prop st ''departure_gate'')),
            (''departure_terminal'', or_null (get_prop seg ''start_terminal'')),
            (''baggage_claim'', or_null (optional_prop st ''baggage_claim'')),
            (''delay_minutes'', or_null (optional_prop st ''delay_in_minutes''))])))))))"

text \<open>\<^verbatim>\<open>segments.map(...)\<close>, which stops at the first segment that raises.\<close>

fun map_segments :: "platform \<Rightarrow> json list \<Rightarrow> thrown + json list" where
  "map_segments P [] = Inr []"
| "map_segments P (seg # segs) =
     (case segment_status P seg of
        Inl e \<Rightarrow> Inl e
      | Inr info \<Rightarrow>
          (case map_segments P segs of
             Inl e \<Rightarrow> Inl e
           | Inr infos \<Rightarrow> Inr (info # infos)))"

definition flight_status_result :: "platform \<Rightarrow> json \<Rightarrow> thrown + tool_result" where
  "flight_status_result P payload =
     and_then (read_prop P payload ''AirObject'') (\<lambda>airObject.
       if \<not> truthy airObject then Inr (error_result ''Flight not found'')
       else
         (let segments =
                (case get_prop airObject ''Segment'' of
                   JArr xs \<Rightarrow> xs
                 | other \<Rightarrow> [other])
          in and_then (map_segments P segments) (\<lambda>statusInfo.
               (let hasStatus =
                      list_ex (\<lambda>s. get_prop s ''status'' \<noteq> JStr ''Not monitored'') statusInfo
                in if \<not> hasStatus \<and> length segments > 0 then
                     Inr (text_result (stringify P (JObj
                       [(''note'',
                           JStr ''Real-time flight status requires TripIt Pro. Showing basic flight info.''),
                        (''segments'', JArr statusInfo)])))
                   else Inr (text_result (stringify P (JArr statusInfo)))))))"

definition proTool_body :: "platform \<Rightarrow> client_ops \<Rightarrow> json \<Rightarrow> json \<Rightarrow> thrown + tool_result" where
  "proTool_body P client name args =
     (if name = JStr ''tripit_get_flight_status'' then
        and_then (read_prop P args ''flight_id'') (\<lambda>flight_id.
        and_then (client (GetFlightStatus flight_id)) (flight_status_result P))
      else if name = JStr ''tripit_list_points_programs'' then rendered P (client ListPointsPrograms)
      else if name = JStr ''tripit_get_profile'' then rendered P (client GetProfile)
      else unknown_tool P name)"

definition handleProTool :: "platform \<Rightarrow> client_ops \<Rightarrow> json \<Rightarrow> json \<Rightarrow> tool_result" where
  "handleProTool P client name args =
     (case proTool_body P client name args of
        Inl error \<Rightarrow> handleTripItError error
      | Inr r \<Rightarrow> r)"

text \<open>
  The router of tools/index.ts. Its tests \<^verbatim>\<open>name in ...\<close> stand outside any \<^verbatim>\<open>try\<close>: when
  the name cannot be converted to a property key, the router raises.
\<close>

definition handleToolCall :: "platform \<Rightarrow> client_ops \<Rightarrow> json \<Rightarrow> json \<Rightarrow> thrown + tool_result" where
  "handleToolCall P client name args =
     and_then (has_property P tripTools name) (\<lambda>trip.
       if trip then Inr (handleTripTool P client name args)
       else
         and_then (has_property P objectTools name) (\<lambda>object.
           if object then Inr (handleObjectTool P client name args)
           else
             and_then (has_property P proTools name) (\<lambda>pro.
               if pro then Inr (handleProTool P client name args)
               else unknown_tool P name)))"

text \<open>
  The descriptors listed by \<^verbatim>\<open>tools/list\<close>. The description and the input schema of each
  tool are taken as given.
\<close>

record catalog =
  description :: "string \<Rightarrow> string"
  inputSchema :: "string \<Rightarrow> json"

definition getToolDefinitions :: "catalog \<Rightarrow> json" where
  "getToolDefinitions C =
     JArr (map (\<lambda>name. JObj [(''name'', JStr name),
                              (''description'', JStr (description C name)),
                              (''inputSchema'', inputSchema C name)]) allTools)"

section \<open>The dispatcher (mcp/server.ts)\<close>

text \<open>
  A request is an object with an identifier (a string, a number or \<^verbatim>\<open>null\<close>), a method
  and optional params, as its type declares; its \<^verbatim>\<open>jsonrpc\<close> field is not read.
\<close>

datatype rpc_id = IdString string | IdNumber int | IdNull

record MCPRequest =
  request_id :: rpc_id
  rpc_method :: string
  params :: "json option"

datatype rpc_result = JsonResult json | ToolResult tool_result

record rpc_error =
  code :: int
  message :: string

record MCPResponse =
  jsonrpc :: string
  response_id :: rpc_id
  result :: "rpc_result option"
  error :: "rpc_error option"

definition PROTOCOL_VERSION :: string where
  "PROTOCOL_VERSION = ''2024-11-05''"

definition SERVER_INFO :: json where
  "SERVER_INFO = JObj [(''name'', JStr ''tripit-mcp''), (''version'', JStr ''1.0.0'')]"

definition result_response :: "rpc_id \<Rightarrow> rpc_result \<Rightarrow> MCPResponse" where
  "result_response i r = \<lparr>jsonrpc = ''2.0'', response_id = i, result = Some r, error = None\<rparr>"

definition error_response :: "rpc_id \<Rightarrow> int \<Rightarrow> string \<Rightarrow> MCPResponse" where
  "error_response i c m =
     \<lparr>jsonrpc = ''2.0'', response_id = i, result = None, error = Some \<lparr>code = c, message = m\<rparr>\<rparr>"

text \<open>
  The two functions the dispatcher imports from the tool registry, as it sees them: each
  call returns or raises.
\<close>

record tools_index =
  tool_definitions :: "thrown + json"
  tool_call :: "json \<Rightarrow> json \<Rightarrow> thrown + tool_result"

text \<open>\<^verbatim>\<open>toolParams?.name\<close> and \<^verbatim>\<open>toolParams.arguments ?? {}\<close>.\<close>

definition tool_name :: "MCPRequest \<Rightarrow> json" where
  "tool_name req =
     (case params req of
        None \<Rightarrow> JUndefined
      | Some toolParams \<Rightarrow> optional_prop toolParams ''name'')"

definition tool_arguments :: "MCPRequest \<Rightarrow> json" where
  "tool_arguments req =
     (case params req of
        None \<Rightarrow> JObj []
      | Some toolParams \<Rightarrow>
          if nullish (get_prop toolParams ''arguments'') then JObj []
          else get_prop toolParams ''arguments'')"

text \<open>The \<^verbatim>\<open>try\<close> block of \<^verbatim>\<open>handleMCPRequest\<close>: the \<^verbatim>\<open>switch\<close> over the method.\<close>

definition dispatch :: "tools_index \<Rightarrow> MCPRequest \<Rightarrow> thrown + MCPResponse" where
  "dispatch T req =
     (let i = request_id req in
      if rpc_method req = ''initialize'' then
        Inr (result_response i (JsonResult (JObj
          [(''protocolVersion'', JStr PROTOCOL_VERSION),
           (''capabilities'', JObj [(''tools'', JObj [])]),
           (''serverInfo'', SERVER_INFO)])))
      else if rpc_method req = ''initialized'' then
        Inr (result_response i (JsonResult (JObj [])))
      else if rpc_method req = ''tools/list'' then
        (case tool_definitions T of
           Inl e \<Rightarrow> Inl e
         | Inr tools \<Rightarrow> Inr (result_response i (JsonResult (JObj [(''tools'', tools)]))))
      else if rpc_method req = ''tools/call'' then
        (if \<not> truthy (tool_name req) then
           Inr (error_response i (- 32602) ''Missing tool name'')
         else
           (case tool_call T (tool_name req) (tool_arguments req) of
              Inl e \<Rightarrow> Inl e
            | Inr r \<Rightarrow> Inr (result_response i (ToolResult r))))
      else if rpc_method req = ''ping'' then
        Inr (result_response i (JsonResult (JObj [])))
      else if rpc_method req = ''resources/list'' then
        Inr (result_response i (JsonResult (JObj [(''resources'', JArr [])])))
      else if rpc_method req = ''prompts/list'' then
        Inr (result_response i (JsonResult (JObj [(''prompts'', JArr [])])))
      else
        Inr (error_response i (- 32601) (''Method not found: '' @ rpc_method req)))"

text \<open>\<^verbatim>\<open>error instanceof Error ? error.message : 'Internal error'\<close>.\<close>

fun internal_error_message :: "thrown \<Rightarrow> string" where
  "internal_error_message (TripItErr c s d m) = m"
| "internal_error_message (JsError n m) = m"
| "internal_error_message (NonError s) = ''Internal error''"

text \<open>\<^verbatim>\<open>handleMCPRequest\<close>, relative to the two functions it imports.\<close>

definition handleMCPRequest_with :: "tools_index \<Rightarrow> MCPRequest \<Rightarrow> MCPResponse" where
  "handleMCPRequest_with T req =
     (case dispatch T req of
        Inr response \<Rightarrow> response
      | Inl err \<Rightarrow> error_response (request_id req) (- 32603) (internal_error_message err))"

text \<open>\<^verbatim>\<open>handleMCPRequest\<close> with the repository's own tool registry.\<close>

definition tools :: "platform \<Rightarrow> catalog \<Rightarrow> client_ops \<Rightarrow> tools_index" where
  "tools P C client =
     \<lparr>tool_definitions = Inr (getToolDefinitions C),
      tool_call = (\<lambda>name args. handleToolCall P client name args)\<rparr>"

definition handleMCPRequest :: "platform \<Rightarrow> catalog \<Rightarrow> client_ops \<Rightarrow> MCPRequest \<Rightarrow> MCPResponse" where
  "handleMCPRequest P C client req = handleMCPRequest_with (tools P C client) req"

text \<open>Concrete surroundings for the tools and the dispatcher.\<close>

definition plain_platform :: platform where
  "plain_platform =
     \<lparr>stringify = (\<lambda>v. ''{}''),
      epoch_seconds = (\<lambda>s. JNum 0),
      number_text = (\<lambda>n. if n < 0 then ''-'' @ show_nat (nat (- n)) else show_nat (nat n)),
      type_error_message = (\<lambda>v k. ''Cannot read properties of null or undefined''),
      cannot_convert = ''Cannot convert object to primitive value''\<rparr>"

definition plain_catalog :: catalog where
  "plain_catalog = \<lparr>description = (\<lambda>name. name), inputSchema = (\<lambda>name. JObj [])\<rparr>"


definition answering_client :: "json \<Rightarrow> client_ops" where
  "answering_client v = (\<lambda>call. Inr v)"

definition call_request :: "rpc_id \<Rightarrow> json \<Rightarrow> MCPRequest" where
  "call_request i p = \<lparr>request_id = i, rpc_method = ''tools/call'', params = Some p\<rparr>"

section \<open>Reading a run\<close>

text \<open>Observations on the events of a logical call, used to state its properties.\<close>

definition result_of :: "(thrown + json) \<times> client \<times> int \<times> event list \<Rightarrow> thrown + json" where
  "result_of run = fst run"

definition trace_of :: "(thrown + json) \<times> client \<times> int \<times> event list \<Rightarrow> event list" where
  "trace_of run = snd (snd (snd run))"

fun is_Fetch :: "event \<Rightarrow> bool" where
  "is_Fetch (Fetch m u h b) = True"
| "is_Fetch e = False"

fun is_ThrottleWait :: "event \<Rightarrow> bool" where
  "is_ThrottleWait (ThrottleWait d) = True"
| "is_ThrottleWait e = False"

text \<open>The number of attempts: requests handed to \<^verbatim>\<open>fetch\<close>.\<close>

definition attempts :: "event list \<Rightarrow> nat" where
  "attempts tr = length (filter is_Fetch tr)"

text \<open>The backoff waits of a run, in order.\<close>

fun backoff_waits :: "event list \<Rightarrow> int list" where
  "backoff_waits [] = []"
| "backoff_waits (BackoffWait d # tr) = d # backoff_waits tr"
| "backoff_waits (e # tr) = backoff_waits tr"

text \<open>For each attempt in order, the backoff wait that directly follows it, if any.\<close>

fun backoff_after :: "event list \<Rightarrow> int option list" where
  "backoff_after [] = []"
| "backoff_after (Fetch m u h b # BackoffWait d # tr) = Some d # backoff_after tr"
| "backoff_after (Fetch m u h b # tr) = None # backoff_after tr"
| "backoff_after (e # tr) = backoff_after tr"


text \<open>
  The classifications of an attempt's outcome that the properties speak of. Retryable:
  status 429, a status from 500 on, or no response at all (a rejection raised by the
  platform, which is never one of the client's own error classes). Terminal: status 401
  or 404.
\<close>

definition retryable :: "fetch_outcome \<Rightarrow> bool" where
  "retryable out =
     (case out of
        Rejected e \<Rightarrow> \<not> instanceof_TripItError e
      | Resolved r \<Rightarrow> status r = 429 \<or> 500 \<le> status r)"

definition terminal :: "fetch_outcome \<Rightarrow> bool" where
  "terminal out =
     (case out of
        Rejected e \<Rightarrow> False
      | Resolved r \<Rightarrow> status r = 401 \<or> status r = 404)"

text \<open>The error that lines 92 and 109 record for a retryable outcome.\<close>

definition recorded_error :: "fetch_outcome \<Rightarrow> thrown" where
  "recorded_error out =
     (case out of
        Rejected e \<Rightarrow> new_TripItError 0 (String_of e)
      | Resolved r \<Rightarrow> new_TripItError (status r) (''Server error: '' @ show_nat (status r)))"

text \<open>The error that lines 81 and 85 throw for a terminal outcome.\<close>

definition terminal_error :: "string \<Rightarrow> fetch_outcome \<Rightarrow> thrown" where
  "terminal_error path out =
     (case out of
        Rejected e \<Rightarrow> e
      | Resolved r \<Rightarrow>
          if status r = 401 then new_AuthenticationError ''Authentication failed''
          else new_NotFoundError ''resource'' path)"



text \<open>
  The schedule of a loop entered at attempt \<open>k\<close>, as a property of the list
  \<open>backoff_after\<close> of its events.
\<close>

definition sched_ok :: "env \<Rightarrow> nat \<Rightarrow> int option list \<Rightarrow> bool" where
  "sched_ok E k bs =
     (k + length bs \<le> MAX_RETRIES \<and>
      (\<forall>i<length bs.
         (bs ! i = None \<or> bs ! i = Some (BASE_DELAY_MS * 2 ^ (k + i))) \<and>
         (retryable (fetch E (k + i)) \<longrightarrow> bs ! i \<noteq> None) \<and>
         (terminal (fetch E (k + i)) \<longrightarrow> bs ! i = None) \<and>
         (bs ! i = None \<longrightarrow> Suc i = length bs)))"

text \<open>Concrete surroundings, for running the model on examples.\<close>

definition plain_response :: "nat \<Rightarrow> fetch_outcome" where
  "plain_response s =
     Resolved \<lparr>status = s, text_body = Inr ''Bad Request'', json_body = Inr (JObj [])\<rparr>"

definition scripted :: "fetch_outcome list \<Rightarrow> env" where
  "scripted outs =
     \<lparr>signRequest = (\<lambda>k m u t s. [(''Authorization'', ''OAuth'')]),
      encode = (\<lambda>j. ''%7B%7D''),
      fetch = (\<lambda>k. if k < length outs then outs ! k
                    else Rejected (JsError ''TypeError'' ''fetch failed'')),
      fetch_ms = (\<lambda>k. 0)\<rparr>"

definition fresh_client :: client where
  "fresh_client = \<lparr>accessToken = ''token'', accessTokenSecret = ''secret'', lastRequestTime = 0\<rparr>"


section \<open>One iteration of the loop\<close>

lemma throttle_events: "throttle c now = (ev, c', now') \<Longrightarrow> list_all is_ThrottleWait ev"
  by (auto simp: throttle_def Let_def split: if_splits)

lemma instanceof_new [simp]:
  "instanceof_AuthenticationError (new_AuthenticationError d)"
  "instanceof_NotFoundError (new_NotFoundError r i)"
  by (simp_all add: new_AuthenticationError_def new_NotFoundError_def Let_def)

text \<open>
  The events of an iteration: throttle waits, the request, and a backoff wait exactly
  when the loop goes on to the next iteration.
\<close>

lemma iteration_shape:
  assumes "iteration E method url path body attempt c now = (stp, c', now', ev)"
  shows "\<exists>t f. list_all is_ThrottleWait t \<and> is_Fetch f \<and>
           ev = t @ f # (case stp of
                           Done r \<Rightarrow> []
                         | Next le \<Rightarrow> [BackoffWait (BASE_DELAY_MS * 2 ^ attempt)])"
proof -
  obtain t c1 now1 where th: "throttle c now = (t, c1, now1)"
    by (cases "throttle c now") auto
  have t: "list_all is_ThrottleWait t"
    using th by (rule throttle_events)
  obtain ev2 cmp where tb: "try_block E c1 method url path body attempt = (ev2, cmp)"
    by (cases "try_block E c1 method url path body attempt") auto
  have "\<exists>f. is_Fetch f \<and>
          ev2 = f # (case cmp of
                       Continues e \<Rightarrow> [BackoffWait (BASE_DELAY_MS * 2 ^ attempt)]
                     | _ \<Rightarrow> [])"
    using tb
    by (auto simp: try_block_def Let_def split: fetch_outcome.splits if_splits sum.splits)
  then obtain f where f: "is_Fetch f"
    and ev2: "ev2 = f # (case cmp of
                           Continues e \<Rightarrow> [BackoffWait (BASE_DELAY_MS * 2 ^ attempt)]
                         | _ \<Rightarrow> [])"
    by blast
  show ?thesis
    using assms th tb t f ev2
    by (cases cmp) (auto simp: iteration_def Let_def split: if_splits)
qed

lemma try_block_retryable:
  assumes "retryable (fetch E attempt)"
  shows "(\<exists>f. try_block E c method url path body attempt =
            ([f, BackoffWait (BASE_DELAY_MS * 2 ^ attempt)],
             Continues (recorded_error (fetch E attempt)))) \<or>
         (\<exists>f e. fetch E attempt = Rejected e \<and> \<not> instanceof_TripItError e \<and>
            try_block E c method url path body attempt = ([f], Throws e))"
proof (cases "fetch E attempt")
  case (Rejected e)
  then show ?thesis
    using assms by (simp add: try_block_def retryable_def Let_def)
next
  case (Resolved r)
  then show ?thesis
    using assms by (auto simp add: try_block_def retryable_def recorded_error_def Let_def)
qed

lemma iteration_retryable:
  assumes "retryable (fetch E attempt)"
  shows "fst (iteration E method url path body attempt c now) =
           Next (Some (recorded_error (fetch E attempt)))"
proof -
  obtain t c1 now1 where th: "throttle c now = (t, c1, now1)"
    by (cases "throttle c now") auto
  from try_block_retryable [OF assms, of c1 "method" url path body]
  show ?thesis
  proof
    assume "\<exists>f. try_block E c1 method url path body attempt =
              ([f, BackoffWait (BASE_DELAY_MS * 2 ^ attempt)],
               Continues (recorded_error (fetch E attempt)))"
    then show ?thesis
      using th by (auto simp: iteration_def Let_def)
  next
    assume "\<exists>f e. fetch E attempt = Rejected e \<and> \<not> instanceof_TripItError e \<and>
              try_block E c1 method url path body attempt = ([f], Throws e)"
    then obtain f e where e: "fetch E attempt = Rejected e" "\<not> instanceof_TripItError e"
      and tb: "try_block E c1 method url path body attempt = ([f], Throws e)"
      by blast
    have "\<not> instanceof_AuthenticationError e" "\<not> instanceof_NotFoundError e"
      using e(2) by (cases e; simp)+
    then show ?thesis
      using th tb e by (simp add: iteration_def Let_def recorded_error_def)
  qed
qed

lemma try_block_terminal:
  assumes "terminal (fetch E attempt)"
  shows "\<exists>f. try_block E c method url path body attempt =
           ([f], Throws (terminal_error path (fetch E attempt)))"
  using assms
  by (cases "fetch E attempt") (auto simp: try_block_def terminal_def terminal_error_def Let_def)

lemma iteration_terminal:
  assumes "terminal (fetch E attempt)"
  shows "fst (iteration E method url path body attempt c now) =
           Done (Inl (terminal_error path (fetch E attempt)))"
proof -
  obtain t c1 now1 where th: "throttle c now = (t, c1, now1)"
    by (cases "throttle c now") auto
  from try_block_terminal [OF assms, of c1 "method" url path body]
  obtain f where tb: "try_block E c1 method url path body attempt =
                        ([f], Throws (terminal_error path (fetch E attempt)))"
    by blast
  have "instanceof_AuthenticationError (terminal_error path (fetch E attempt)) \<or>
        instanceof_NotFoundError (terminal_error path (fetch E attempt))"
    using assms by (cases "fetch E attempt") (auto simp: terminal_def terminal_error_def)
  then show ?thesis
    using th tb by (auto simp add: iteration_def Let_def)
qed

lemma iteration_terminal_full:
  assumes "terminal (fetch E attempt)"
  shows "\<exists>c1 now1 t f. list_all is_ThrottleWait t \<and> is_Fetch f \<and>
           iteration E method url path body attempt c now =
             (Done (Inl (terminal_error path (fetch E attempt))), c1, now1, t @ [f])"
proof -
  obtain stp c1 now1 ev where it: "iteration E method url path body attempt c now = (stp, c1, now1, ev)"
    by (cases "iteration E method url path body attempt c now") auto
  have stp: "stp = Done (Inl (terminal_error path (fetch E attempt)))"
    using iteration_terminal [OF assms, of "method" url path body c now] it by simp
  from iteration_shape [OF it] stp it show ?thesis
    by auto
qed

section \<open>Unfolding the loop\<close>

lemma loop_exit:
  "\<not> attempt < MAX_RETRIES \<Longrightarrow>
   request_loop E method url path body attempt c now lastError =
     (Inl (case lastError of
             Some e \<Rightarrow> e
           | None \<Rightarrow> new_TripItError 0 ''Request failed after retries''),
      c, now, [])"
  by (subst request_loop.simps) simp

lemma loop_done:
  "attempt < MAX_RETRIES \<Longrightarrow>
   iteration E method url path body attempt c now = (Done r, c1, now1, ev) \<Longrightarrow>
   request_loop E method url path body attempt c now lastError = (r, c1, now1, ev)"
  by (subst request_loop.simps) simp

lemma loop_next:
  "attempt < MAX_RETRIES \<Longrightarrow>
   iteration E method url path body attempt c now = (Next le, c1, now1, ev) \<Longrightarrow>
   request_loop E method url path body (Suc attempt) c1 now1 le = (r, c2, now2, ev') \<Longrightarrow>
   request_loop E method url path body attempt c now lastError = (r, c2, now2, ev @ ev')"
  by (subst request_loop.simps) simp

section \<open>Observations on traces\<close>

lemma backoff_after_throttle:
  "list_all is_ThrottleWait t \<Longrightarrow> backoff_after (t @ xs) = backoff_after xs"
proof (induction t)
  case Nil
  then show ?case by simp
next
  case (Cons e t)
  then show ?case by (cases e) auto
qed

lemma backoff_after_fetch_backoff:
  "is_Fetch f \<Longrightarrow> backoff_after (f # BackoffWait d # xs) = Some d # backoff_after xs"
  by (cases f) auto

lemma backoff_after_fetch: "is_Fetch f \<Longrightarrow> backoff_after [f] = [None]"
  by (cases f) auto

lemma attempts_backoff_after: "length (backoff_after tr) = attempts tr"
  by (induction tr rule: backoff_after.induct) (simp_all add: attempts_def)

lemma backoff_waits_throttle:
  "list_all is_ThrottleWait t \<Longrightarrow> backoff_waits (t @ xs) = backoff_waits xs"
proof (induction t)
  case Nil
  then show ?case by simp
next
  case (Cons e t)
  then show ?case by (cases e) auto
qed

lemma backoff_waits_fetch: "is_Fetch f \<Longrightarrow> backoff_waits (f # xs) = backoff_waits xs"
  by (cases f) auto

lemma attempts_single: "list_all is_ThrottleWait t \<Longrightarrow> is_Fetch f \<Longrightarrow> attempts (t @ [f]) = 1"
  by (induction t) (auto simp: attempts_def elim: is_ThrottleWait.elims)



section \<open>The schedule of a call\<close>

lemma sched_ok_Nil: "k \<le> MAX_RETRIES \<Longrightarrow> sched_ok E k []"
  by (simp add: sched_ok_def)

lemma sched_ok_None:
  "k < MAX_RETRIES \<Longrightarrow> \<not> retryable (fetch E k) \<Longrightarrow> sched_ok E k [None]"
  by (simp add: sched_ok_def)

lemma sched_ok_Some:
  "k < MAX_RETRIES \<Longrightarrow> \<not> terminal (fetch E k) \<Longrightarrow> sched_ok E (Suc k) bs \<Longrightarrow>
   sched_ok E k (Some (BASE_DELAY_MS * 2 ^ k) # bs)"
  by (auto simp: sched_ok_def nth_Cons split: nat.split)

lemma loop_sched:
  assumes "request_loop E method url path body k c now le = (r, c', now', tr)"
    and "k \<le> MAX_RETRIES"
  shows "sched_ok E k (backoff_after tr)"
  using assms
proof (induction "MAX_RETRIES - k" arbitrary: k c now le r c' now' tr)
  case 0
  then have "\<not> k < MAX_RETRIES" by simp
  from loop_exit [OF this] "0.prems" have "tr = []" by simp
  then show ?case
    using "0.prems" by (simp add: sched_ok_Nil)
next
  case (Suc n)
  then have k: "k < MAX_RETRIES" by simp
  obtain stp c1 now1 ev where it: "iteration E method url path body k c now = (stp, c1, now1, ev)"
    by (cases "iteration E method url path body k c now") auto
  from iteration_shape [OF it] obtain t f where t: "list_all is_ThrottleWait t" and f: "is_Fetch f"
    and ev: "ev = t @ f # (case stp of
                             Done r \<Rightarrow> []
                           | Next le \<Rightarrow> [BackoffWait (BASE_DELAY_MS * 2 ^ k)])"
    by blast
  show ?case
  proof (cases stp)
    case (Done r0)
    with loop_done [OF k, of E "method" url path body c now r0 c1 now1 ev le] it Suc.prems
    have "tr = ev" by simp
    then have bs: "backoff_after tr = [None]"
      using ev Done t f by (simp add: backoff_after_throttle backoff_after_fetch)
    have "\<not> retryable (fetch E k)"
      using iteration_retryable [of E k "method" url path body c now] it Done by auto
    then show ?thesis
      using bs k by (simp add: sched_ok_None)
  next
    case (Next le')
    obtain r2 c2 now2 ev' where
      rec: "request_loop E method url path body (Suc k) c1 now1 le' = (r2, c2, now2, ev')"
      by (cases "request_loop E method url path body (Suc k) c1 now1 le'") auto
    from loop_next [OF k, of E "method" url path body c now le' c1 now1 ev r2 c2 now2 ev' le]
      it Next rec Suc.prems
    have tr: "tr = ev @ ev'" by simp
    have IH: "sched_ok E (Suc k) (backoff_after ev')"
      using Suc.hyps(1) [of "Suc k", OF _ rec] Suc.hyps(2) k by simp
    have bs: "backoff_after tr = Some (BASE_DELAY_MS * 2 ^ k) # backoff_after ev'"
      using tr ev Next t f by (simp add: backoff_after_throttle backoff_after_fetch_backoff)
    have "\<not> terminal (fetch E k)"
      using iteration_terminal [of E k "method" url path body c now] it Next by auto
    then show ?thesis
      using bs k IH by (simp add: sched_ok_Some)
  qed
qed

lemma loop_waits:
  assumes "request_loop E method url path body k c now le = (r, c', now', tr)"
  shows "backoff_waits tr =
           map (\<lambda>i. BASE_DELAY_MS * 2 ^ (k + i)) [0..<length (backoff_waits tr)]"
  using assms
proof (induction "MAX_RETRIES - k" arbitrary: k c now le r c' now' tr)
  case 0
  then have "\<not> k < MAX_RETRIES" by simp
  from loop_exit [OF this] "0.prems" have "tr = []" by simp
  then show ?case by simp
next
  case (Suc n)
  then have k: "k < MAX_RETRIES" by simp
  obtain stp c1 now1 ev where it: "iteration E method url path body k c now = (stp, c1, now1, ev)"
    by (cases "iteration E method url path body k c now") auto
  from iteration_shape [OF it] obtain t f where t: "list_all is_ThrottleWait t" and f: "is_Fetch f"
    and ev: "ev = t @ f # (case stp of
                             Done r \<Rightarrow> []
                           | Next le \<Rightarrow> [BackoffWait (BASE_DELAY_MS * 2 ^ k)])"
    by blast
  show ?case
  proof (cases stp)
    case (Done r0)
    with loop_done [OF k, of E "method" url path body c now r0 c1 now1 ev le] it Suc.prems
    have "tr = ev" by simp
    then have "backoff_waits tr = []"
      using ev Done t f by (simp add: backoff_waits_throttle backoff_waits_fetch)
    then show ?thesis by simp
  next
    case (Next le')
    obtain r2 c2 now2 ev' where
      rec: "request_loop E method url path body (Suc k) c1 now1 le' = (r2, c2, now2, ev')"
      by (cases "request_loop E method url path body (Suc k) c1 now1 le'") auto
    from loop_next [OF k, of E "method" url path body c now le' c1 now1 ev r2 c2 now2 ev' le]
      it Next rec Suc.prems
    have tr: "tr = ev @ ev'" by simp
    have IH: "backoff_waits ev' =
                map (\<lambda>i. BASE_DELAY_MS * 2 ^ (Suc k + i)) [0..<length (backoff_waits ev')]"
      using Suc.hyps(1) [of "Suc k", OF _ rec] Suc.hyps(2) k by simp
    have bs: "backoff_waits tr = (BASE_DELAY_MS * 2 ^ k) # backoff_waits ev'"
      using tr ev Next t f by (simp add: backoff_waits_throttle backoff_waits_fetch)
    have "map (\<lambda>i. BASE_DELAY_MS * 2 ^ (k + i)) [0..<Suc (length (backoff_waits ev'))] =
          (BASE_DELAY_MS * 2 ^ k) #
            map (\<lambda>i. BASE_DELAY_MS * 2 ^ (Suc k + i)) [0..<length (backoff_waits ev')]"
      by (simp add: upt_conv_Cons map_Suc_upt [symmetric] del: upt_Suc)
    then show ?thesis
      using bs IH by simp
  qed
qed

lemma schedule_increasing: "sorted_wrt (<) (map (\<lambda>i. BASE_DELAY_MS * 2 ^ (k + i)) [0..<n])"
  by (simp add: sorted_wrt_map BASE_DELAY_MS_def sorted_wrt_mono_rel [OF _ sorted_wrt_upt [of 0 n]])

lemma loop_attempted:
  assumes "k < MAX_RETRIES"
  shows "1 \<le> attempts (trace_of (request_loop E method url path body k c now le))"
proof -
  obtain stp c1 now1 ev where it: "iteration E method url path body k c now = (stp, c1, now1, ev)"
    by (cases "iteration E method url path body k c now") auto
  from iteration_shape [OF it] obtain t f where f: "is_Fetch f"
    and ev: "ev = t @ f # (case stp of
                             Done r \<Rightarrow> []
                           | Next le \<Rightarrow> [BackoffWait (BASE_DELAY_MS * 2 ^ k)])"
    by blast
  have ev1: "1 \<le> attempts ev"
    using f ev by (simp add: attempts_def)
  show ?thesis
  proof (cases stp)
    case (Done r0)
    with loop_done [OF assms, of E "method" url path body c now r0 c1 now1 ev le] it ev1
    show ?thesis by (simp add: trace_of_def)
  next
    case (Next le')
    obtain r2 c2 now2 ev' where
      rec: "request_loop E method url path body (Suc k) c1 now1 le' = (r2, c2, now2, ev')"
      by (cases "request_loop E method url path body (Suc k) c1 now1 le'") auto
    from loop_next [OF assms, of E "method" url path body c now le' c1 now1 ev r2 c2 now2 ev' le]
      it Next rec ev1
    show ?thesis by (simp add: trace_of_def attempts_def)
  qed
qed

lemma loop_all_retryable:
  assumes "k < MAX_RETRIES"
    and "\<forall>j. k \<le> j \<and> j < MAX_RETRIES \<longrightarrow> retryable (fetch E j)"
  shows "fst (request_loop E method url path body k c now le) =
           Inl (recorded_error (fetch E (MAX_RETRIES - 1)))"
  using assms
proof (induction "MAX_RETRIES - k" arbitrary: k c now le)
  case 0
  then show ?case by simp
next
  case (Suc n)
  have k: "k < MAX_RETRIES" by fact
  obtain stp c1 now1 ev where it: "iteration E method url path body k c now = (stp, c1, now1, ev)"
    by (cases "iteration E method url path body k c now") auto
  have "retryable (fetch E k)"
    using Suc.prems by simp
  from iteration_retryable [OF this, of "method" url path body c now] it
  have stp: "stp = Next (Some (recorded_error (fetch E k)))" by simp
  obtain r2 c2 now2 ev' where rec:
    "request_loop E method url path body (Suc k) c1 now1 (Some (recorded_error (fetch E k))) =
       (r2, c2, now2, ev')"
    by (cases "request_loop E method url path body (Suc k) c1 now1
                 (Some (recorded_error (fetch E k)))") auto
  from loop_next [OF k, of E "method" url path body c now _ c1 now1 ev r2 c2 now2 ev' le] it stp rec
  have run: "fst (request_loop E method url path body k c now le) = r2" by simp
  show ?case
  proof (cases "Suc k < MAX_RETRIES")
    case True
    have "fst (request_loop E method url path body (Suc k) c1 now1
                 (Some (recorded_error (fetch E k)))) =
            Inl (recorded_error (fetch E (MAX_RETRIES - 1)))"
      using Suc.hyps(1) [of "Suc k"] Suc.hyps(2) True Suc.prems(2) by simp
    then show ?thesis
      using run rec by simp
  next
    case False
    then have final: "k = MAX_RETRIES - 1"
      using k by simp
    from loop_exit [OF False, of E "method" url path body c1 now1 "Some (recorded_error (fetch E k))"] rec
    have "r2 = Inl (recorded_error (fetch E k))" by simp
    then show ?thesis
      using run final by simp
  qed
qed

section \<open>What every attempt sends\<close>




section \<open>Properties of the request loop\<close>

text \<open>
  C3. A logical call whose first attempt receives status 401 fails with an
  AuthenticationError, and one whose first attempt receives 404 fails with a
  NotFoundError, on that attempt: the call makes one attempt, and no backoff wait
  follows it. The request of that attempt is the last event of the call; what precedes
  it is at most the throttle wait that every attempt begins with.
\<close>

theorem unauthorized_or_missing_fails_at_once:
  assumes "fetch E 0 = Resolved r" and "status r = 401 \<or> status r = 404"
  shows "result_of (request E c now method path body) =
           Inl (if status r = 401 then new_AuthenticationError ''Authentication failed''
                else new_NotFoundError ''resource'' path) \<and>
         attempts (trace_of (request E c now method path body)) = 1 \<and>
         backoff_waits (trace_of (request E c now method path body)) = [] \<and>
         backoff_after (trace_of (request E c now method path body)) = [None] \<and>
         (\<exists>t f. list_all is_ThrottleWait t \<and> is_Fetch f \<and>
                trace_of (request E c now method path body) = t @ [f])"
proof -
  have fatal: "terminal (fetch E 0)"
    using assms by (simp add: terminal_def)
  from iteration_terminal_full [OF fatal, of "method" "BASE_URL @ path" path body c now]
  obtain c1 now1 t f where t: "list_all is_ThrottleWait t" and f: "is_Fetch f"
    and it: "iteration E method (BASE_URL @ path) path body 0 c now =
               (Done (Inl (terminal_error path (fetch E 0))), c1, now1, t @ [f])"
    by blast
  have "0 < MAX_RETRIES"
    by (simp add: MAX_RETRIES_def)
  from loop_done [OF this it, of None]
  have run: "request E c now method path body =
               (Inl (terminal_error path (fetch E 0)), c1, now1, t @ [f])"
    by (simp add: request_def)
  have e: "terminal_error path (fetch E 0) =
             (if status r = 401 then new_AuthenticationError ''Authentication failed''
              else new_NotFoundError ''resource'' path)"
    using assms by (simp add: terminal_error_def)
  have shape: "\<exists>t f. list_all is_ThrottleWait t \<and> is_Fetch f \<and>
                 trace_of (request E c now method path body) = t @ [f]"
    using run t f by (auto simp: trace_of_def)
  show ?thesis
    using run e t f shape
    by (simp add: result_of_def trace_of_def attempts_single backoff_waits_throttle
          backoff_waits_fetch backoff_after_throttle backoff_after_fetch)
qed

theorem unauthorized_or_missing_fails_at_once_witness:
  "result_of (request (scripted [plain_response 404]) fresh_client 0 GET ''/get/trip/id/7'' None) =
     Inl (new_NotFoundError ''resource'' ''/get/trip/id/7'') \<and>
   attempts (trace_of (request (scripted [plain_response 404]) fresh_client 0 GET ''/get/trip/id/7'' None)) = 1 \<and>
   backoff_waits (trace_of (request (scripted [plain_response 404]) fresh_client 0 GET ''/get/trip/id/7'' None)) = []"
proof -
  have f: "fetch (scripted [plain_response 404]) 0 =
             Resolved \<lparr>status = 404, text_body = Inr ''Bad Request'', json_body = Inr (JObj [])\<rparr>"
    by (simp add: scripted_def plain_response_def)
  show ?thesis
    using unauthorized_or_missing_fails_at_once
            [OF f, of fresh_client 0 GET "''/get/trip/id/7''" None]
    by simp
qed

text \<open>
  C7. When every one of the MAX_RETRIES attempts ends in a retryable failure, the call
  fails with the error recorded at the last attempt; and the loop, left with no attempt
  to make, fails with the recorded error, or with the generic error
  "Request failed after retries" when none was recorded.
\<close>

theorem exhausted_call_fails_with_last_error:
  "((\<forall>k<MAX_RETRIES. retryable (fetch E k)) \<longrightarrow>
      result_of (request E c now method path body) =
        Inl (recorded_error (fetch E (MAX_RETRIES - 1)))) \<and>
   result_of (request_loop E method url path body MAX_RETRIES c now lastError) =
     Inl (case lastError of
            Some e \<Rightarrow> e
          | None \<Rightarrow> new_TripItError 0 ''Request failed after retries'')"
proof (intro conjI impI)
  assume all: "\<forall>k<MAX_RETRIES. retryable (fetch E k)"
  have "0 < MAX_RETRIES"
    by (simp add: MAX_RETRIES_def)
  from loop_all_retryable [OF this, of E "method" "BASE_URL @ path" path body c now None] all
  show "result_of (request E c now method path body) =
          Inl (recorded_error (fetch E (MAX_RETRIES - 1)))"
    by (simp add: request_def result_of_def)
next
  show "result_of (request_loop E method url path body MAX_RETRIES c now lastError) =
     Inl (case lastError of
            Some e \<Rightarrow> e
          | None \<Rightarrow> new_TripItError 0 ''Request failed after retries'')"
    by (simp add: loop_exit result_of_def)
qed

theorem exhausted_call_fails_with_last_error_witness:
  "result_of (request (scripted [plain_response 500, plain_response 429]) fresh_client 0 GET ''/list/trip'' None) =
     Inl (new_TripItError 0 ''TypeError: fetch failed'') \<and>
   result_of (request_loop (scripted []) GET ''u'' ''p'' None MAX_RETRIES fresh_client 0 None) =
     Inl (new_TripItError 0 ''Request failed after retries'')"
proof -
  have all: "\<forall>k<MAX_RETRIES. retryable (fetch (scripted [plain_response 500, plain_response 429]) k)"
    by (simp add: scripted_def plain_response_def retryable_def nth_Cons')
  have last: "recorded_error (fetch (scripted [plain_response 500, plain_response 429]) (MAX_RETRIES - 1)) =
                new_TripItError 0 ''TypeError: fetch failed''"
    by (simp add: scripted_def recorded_error_def MAX_RETRIES_def error_toString_def)
  show ?thesis
    using exhausted_call_fails_with_last_error
            [of "scripted [plain_response 500, plain_response 429]" fresh_client 0 GET "''/list/trip''" None]
          exhausted_call_fails_with_last_error
            [of "scripted []" fresh_client 0 GET "''p''" None "''u''" None]
          all last
    by simp
qed

text \<open>
  C2 (as amended). A logical call makes at least one and at most MAX_RETRIES attempts.
  Every attempt \<open>i\<close> (counted from 0) that ends in a retryable classification is directly
  followed by a backoff wait of exactly \<open>BASE_DELAY_MS * 2 ^ i\<close> milliseconds, the last
  attempt included; an attempt answered 401 or 404 is followed by none; an attempt that
  no backoff wait follows is the last one. The backoff waits of the call are
  \<open>BASE_DELAY_MS * 2 ^ 0, BASE_DELAY_MS * 2 ^ 1, ...\<close> in this order, hence strictly
  increasing.
\<close>

theorem retry_schedule:
  assumes "trace_of (request E c now method path body) = tr"
  shows "1 \<le> attempts tr \<and> attempts tr \<le> MAX_RETRIES \<and>
         length (backoff_after tr) = attempts tr \<and>
         (\<forall>i<attempts tr. retryable (fetch E i) \<longrightarrow>
            backoff_after tr ! i = Some (BASE_DELAY_MS * 2 ^ i)) \<and>
         (\<forall>i<attempts tr. terminal (fetch E i) \<longrightarrow> backoff_after tr ! i = None) \<and>
         (\<forall>i<attempts tr. backoff_after tr ! i = None \<longrightarrow> Suc i = attempts tr) \<and>
         backoff_waits tr = map (\<lambda>i. BASE_DELAY_MS * 2 ^ i) [0..<length (backoff_waits tr)] \<and>
         sorted_wrt (<) (backoff_waits tr)"
proof -
  obtain r c' now' where
    run: "request_loop E method (BASE_URL @ path) path body 0 c now None = (r, c', now', tr)"
    using assms unfolding request_def trace_of_def
    by (cases "request_loop E method (BASE_URL @ path) path body 0 c now None") auto
  have s: "sched_ok E 0 (backoff_after tr)"
    using loop_sched [OF run] by simp
  have w: "backoff_waits tr = map (\<lambda>i. BASE_DELAY_MS * 2 ^ i) [0..<length (backoff_waits tr)]"
    using loop_waits [OF run] by simp
  have inc: "sorted_wrt (<) (backoff_waits tr)"
    using schedule_increasing [of 0 "length (backoff_waits tr)"] w by simp
  have one: "1 \<le> attempts tr"
    using loop_attempted [of 0 E "method" "BASE_URL @ path" path body c now None] run
    by (simp add: trace_of_def MAX_RETRIES_def)
  show ?thesis
    using s w inc one unfolding sched_ok_def attempts_backoff_after by auto
qed

theorem retry_schedule_witness:
  "attempts (trace_of (request (scripted [plain_response 503, plain_response 404])
     fresh_client 0 GET ''/list/trip'' None)) = 2 \<and>
   backoff_after (trace_of (request (scripted [plain_response 503, plain_response 404])
     fresh_client 0 GET ''/list/trip'' None)) ! 0 = Some 1000 \<and>
   backoff_after (trace_of (request (scripted [plain_response 503, plain_response 404])
     fresh_client 0 GET ''/list/trip'' None)) ! 1 = None \<and>
   sorted_wrt (<) (backoff_waits (trace_of (request (scripted [plain_response 503, plain_response 404])
     fresh_client 0 GET ''/list/trip'' None)))"
proof -
  have n: "attempts (trace_of (request (scripted [plain_response 503, plain_response 404])
             fresh_client 0 GET ''/list/trip'' None)) = 2"
    by code_simp
  have r0: "retryable (fetch (scripted [plain_response 503, plain_response 404]) 0)"
    by (simp add: scripted_def plain_response_def retryable_def)
  have t1: "terminal (fetch (scripted [plain_response 503, plain_response 404]) 1)"
    by (simp add: scripted_def plain_response_def terminal_def)
  show ?thesis
    using retry_schedule [OF refl, of "scripted [plain_response 503, plain_response 404]"
            fresh_client 0 GET "''/list/trip''" None] n r0 t1
    by (simp add: BASE_DELAY_MS_def)
qed

text \<open>
  C2 as stated fails: when all three attempts are answered 500, the third and last
  attempt is followed by a backoff wait of 4000 ms before the call fails.
\<close>

theorem backoff_follows_final_attempt:
  "attempts (trace_of (request (scripted [plain_response 500, plain_response 500, plain_response 500])
     fresh_client 0 GET ''/list/trip'' None)) = MAX_RETRIES \<and>
   backoff_after (trace_of (request (scripted [plain_response 500, plain_response 500, plain_response 500])
     fresh_client 0 GET ''/list/trip'' None)) = [Some 1000, Some 2000, Some 4000] \<and>
   last (trace_of (request (scripted [plain_response 500, plain_response 500, plain_response 500])
     fresh_client 0 GET ''/list/trip'' None)) = BackoffWait 4000 \<and>
   result_of (request (scripted [plain_response 500, plain_response 500, plain_response 500])
     fresh_client 0 GET ''/list/trip'' None) = Inl (new_TripItError 500 ''Server error: 500'')"
  by code_simp

text \<open>
  C1 fails on the code. A first attempt answered 400 does not end the call: the error
  thrown for it is caught by the loop's own \<^verbatim>\<open>catch\<close> clause, a backoff wait of 1000 ms
  follows, and a second attempt is made, whose payload the call returns. When all three
  attempts are answered 400 the call fails only after three attempts and three waits.
\<close>

theorem bad_request_is_retried:
  "result_of (request (scripted [plain_response 400, plain_response 200])
     fresh_client 0 GET ''/list/trip'' None) = Inr (JObj []) \<and>
   backoff_after (trace_of (request (scripted [plain_response 400, plain_response 200])
     fresh_client 0 GET ''/list/trip'' None)) = [Some 1000, None] \<and>
   result_of (request (scripted [plain_response 400, plain_response 400, plain_response 400])
     fresh_client 0 GET ''/list/trip'' None) = Inl (new_TripItError 400 ''Bad Request'') \<and>
   backoff_after (trace_of (request (scripted [plain_response 400, plain_response 400, plain_response 400])
     fresh_client 0 GET ''/list/trip'' None)) = [Some 1000, Some 2000, Some 4000]"
  by code_simp

section \<open>Properties of createObject\<close>




section \<open>Properties of the tool handlers\<close>

lemma js_String_error:
  "js_String P v = Inl e \<Longrightarrow> e = JsError ''TypeError'' (cannot_convert P)"
  "js_join P vs = Inl e \<Longrightarrow> e = JsError ''TypeError'' (cannot_convert P)"
  by (induction P v and P vs rule: js_String_js_join.induct)
     (auto split: sum.splits option.splits if_splits)










lemma has_property_string:
  "has_property P keys (JStr name) =
     Inr (name \<in> set keys \<or> name \<in> set Object_prototype_names)"
  by (simp add: has_property_def and_then_def)







text \<open>The router raises exactly when the name cannot be converted to a property key.\<close>

lemma handleToolCall_raises:
  "handleToolCall P client name args = Inl e \<longleftrightarrow> js_String P name = Inl e"
  by (cases "js_String P name")
     (auto simp: handleToolCall_def has_property_def and_then_def unknown_tool_def)





section \<open>Properties of the dispatcher\<close>

text \<open>
  C5. The response of the dispatcher carries the identifier of the request, whatever
  the method and whatever the tool registry does: the same string or number, and
  \<^verbatim>\<open>null\<close> for \<^verbatim>\<open>null\<close>.
\<close>

theorem response_echoes_id:
  "response_id (handleMCPRequest_with T req) = request_id req \<and>
   response_id (handleMCPRequest P C client req) = request_id req"
proof -
  have "\<And>T. response_id (handleMCPRequest_with T req) = request_id req"
    by (simp add: handleMCPRequest_with_def dispatch_def Let_def result_response_def
          error_response_def split: sum.splits)
  then show ?thesis
    by (simp add: handleMCPRequest_def)
qed

lemma dispatch_raises:
  "dispatch T req = Inl e \<longleftrightarrow>
     (rpc_method req = ''tools/list'' \<and> tool_definitions T = Inl e) \<or>
     (rpc_method req = ''tools/call'' \<and> truthy (tool_name req) \<and>
      tool_call T (tool_name req) (tool_arguments req) = Inl e)"
  by (auto simp: dispatch_def Let_def split: sum.splits if_splits)

lemma dispatch_own_raises:
  "dispatch (tools P C client) req = Inl e \<longleftrightarrow>
     rpc_method req = ''tools/call'' \<and> truthy (tool_name req) \<and>
     js_String P (tool_name req) = Inl e"
  unfolding dispatch_raises by (simp add: tools_def handleToolCall_raises)

text \<open>
  C4. \<^verbatim>\<open>handleMCPRequest\<close> is a function into responses: nothing is passed on to its
  caller. With the tool registry that the dispatcher imports, an exception is raised
  while a method is handled exactly when, for \<^verbatim>\<open>tools/call\<close> with a truthy name, the
  delegated router cannot convert the name to a property key; the exception is a
  \<^verbatim>\<open>TypeError\<close>, and the response is an error with the request's identifier, the code
  -32603 and the message of that exception. (An exception raised inside the handlers of
  the tools does not reach the dispatcher: the handlers turn it into a result.)
\<close>

theorem dispatcher_converts_exceptions:
  "(dispatch (tools P C client) req = Inl e \<longrightarrow>
      e = JsError ''TypeError'' (cannot_convert P) \<and>
      internal_error_message e = cannot_convert P \<and>
      handleMCPRequest P C client req =
        \<lparr>jsonrpc = ''2.0'', response_id = request_id req, result = None,
         error = Some \<lparr>code = - 32603, message = cannot_convert P\<rparr>\<rparr>) \<and>
   (dispatch (tools P C client) req = Inl e \<longleftrightarrow>
      rpc_method req = ''tools/call'' \<and> truthy (tool_name req) \<and>
      js_String P (tool_name req) = Inl e) \<and>
   (\<forall>response. dispatch (tools P C client) req = Inr response \<longrightarrow>
      handleMCPRequest P C client req = response) \<and>
   internal_error_message (TripItErr c s d m) = m \<and>
   internal_error_message (JsError n m) = m"
proof -
  have conv: "dispatch (tools P C client) req = Inl e \<longrightarrow>
      e = JsError ''TypeError'' (cannot_convert P) \<and>
      internal_error_message e = cannot_convert P \<and>
      handleMCPRequest P C client req =
        \<lparr>jsonrpc = ''2.0'', response_id = request_id req, result = None,
         error = Some \<lparr>code = - 32603, message = cannot_convert P\<rparr>\<rparr>"
  proof
    assume raised: "dispatch (tools P C client) req = Inl e"
    then have "js_String P (tool_name req) = Inl e"
      unfolding dispatch_own_raises by simp
    then have e: "e = JsError ''TypeError'' (cannot_convert P)"
      by (rule js_String_error(1))
    show "e = JsError ''TypeError'' (cannot_convert P) \<and>
      internal_error_message e = cannot_convert P \<and>
      handleMCPRequest P C client req =
        \<lparr>jsonrpc = ''2.0'', response_id = request_id req, result = None,
         error = Some \<lparr>code = - 32603, message = cannot_convert P\<rparr>\<rparr>"
      using raised e by (simp add: handleMCPRequest_def handleMCPRequest_with_def error_response_def)
  qed
  have pass: "\<forall>response. dispatch (tools P C client) req = Inr response \<longrightarrow>
      handleMCPRequest P C client req = response"
    by (simp add: handleMCPRequest_def handleMCPRequest_with_def)
  show ?thesis
    using conv pass dispatch_own_raises [of P C client req e] by simp
qed

theorem dispatcher_converts_exceptions_witness:
  "handleMCPRequest plain_platform plain_catalog (answering_client JNull)
     (call_request (IdNumber 3) (JObj [(''name'', JObj [(''toString'', JStr ''x'')])])) =
     \<lparr>jsonrpc = ''2.0'', response_id = IdNumber 3, result = None,
      error = Some \<lparr>code = - 32603, message = ''Cannot convert object to primitive value''\<rparr>\<rparr>"
proof -
  have raised: "dispatch (tools plain_platform plain_catalog (answering_client JNull))
                  (call_request (IdNumber 3) (JObj [(''name'', JObj [(''toString'', JStr ''x'')])])) =
                Inl (JsError ''TypeError'' ''Cannot convert object to primitive value'')"
    unfolding dispatch_own_raises
    by (simp add: call_request_def tool_name_def optional_prop_def nullish_def get_prop_def
          truthy_def plain_platform_def)
  show ?thesis
    using dispatcher_converts_exceptions
            [of plain_platform plain_catalog "answering_client JNull"
                "call_request (IdNumber 3) (JObj [(''name'', JObj [(''toString'', JStr ''x'')])])"
                "JsError ''TypeError'' ''Cannot convert object to primitive value''"]
          raised
    by (simp add: call_request_def plain_platform_def)
qed

text \<open>
  C9 (as amended). For a \<^verbatim>\<open>tools/call\<close> request: when the params are absent or have no
  \<^verbatim>\<open>name\<close>, or the name is falsy (empty string, 0, false, null), the response is the
  error -32602 whatever the tool registry would do, so no tool handler is consulted;
  when the name is truthy and the router returns a result, the response carries that
  result as the method result. With the repository's own router that is the result of
  \<^verbatim>\<open>handleToolCall\<close> on the name and the arguments (an empty object when absent), which
  exists for every name that is a string; a name that cannot be converted to a property
  key makes the router raise, and the response is the error -32603.
\<close>

theorem tools_call_contract:
  assumes "rpc_method req = ''tools/call''"
  shows "(\<not> truthy (tool_name req) \<longrightarrow>
            (\<forall>T. handleMCPRequest_with T req =
                   error_response (request_id req) (- 32602) ''Missing tool name'')) \<and>
         (truthy (tool_name req) \<and> tool_call T (tool_name req) (tool_arguments req) = Inr r \<longrightarrow>
            handleMCPRequest_with T req = result_response (request_id req) (ToolResult r)) \<and>
         (truthy (tool_name req) \<and>
          handleToolCall P client (tool_name req) (tool_arguments req) = Inr r \<longrightarrow>
            handleMCPRequest P C client req = result_response (request_id req) (ToolResult r)) \<and>
         (truthy (tool_name req) \<and> tool_name req = JStr s \<longrightarrow>
            (\<exists>r'. handleToolCall P client (tool_name req) (tool_arguments req) = Inr r' \<and>
                  handleMCPRequest P C client req =
                    result_response (request_id req) (ToolResult r'))) \<and>
         (truthy (tool_name req) \<and>
          handleToolCall P client (tool_name req) (tool_arguments req) = Inl e \<longrightarrow>
            handleMCPRequest P C client req =
              error_response (request_id req) (- 32603) (cannot_convert P)) \<and>
         (params req = None \<longrightarrow> tool_name req = JUndefined) \<and>
         (params req = Some (JObj kv) \<and> map_of kv ''name'' = None \<longrightarrow> tool_name req = JUndefined) \<and>
         (params req = Some (JObj kv) \<and> map_of kv ''name'' = Some v \<longrightarrow> tool_name req = v) \<and>
         \<not> truthy JUndefined \<and> \<not> truthy JNull \<and> \<not> truthy (JStr []) \<and> \<not> truthy (JNum 0) \<and>
         \<not> truthy (JBool False)"
proof -
  have missing: "\<not> truthy (tool_name req) \<longrightarrow>
            (\<forall>T. handleMCPRequest_with T req =
                   error_response (request_id req) (- 32602) ''Missing tool name'')"
    using assms by (simp add: handleMCPRequest_with_def dispatch_def Let_def)
  have wrapped: "\<And>T r. truthy (tool_name req) \<and>
            tool_call T (tool_name req) (tool_arguments req) = Inr r \<longrightarrow>
            handleMCPRequest_with T req = result_response (request_id req) (ToolResult r)"
    using assms by (simp add: handleMCPRequest_with_def dispatch_def Let_def)
  have own: "truthy (tool_name req) \<and>
          handleToolCall P client (tool_name req) (tool_arguments req) = Inr r \<longrightarrow>
            handleMCPRequest P C client req = result_response (request_id req) (ToolResult r)"
    using wrapped [of "tools P C client" r] by (simp add: handleMCPRequest_def tools_def)
  have string: "truthy (tool_name req) \<and> tool_name req = JStr s \<longrightarrow>
            (\<exists>r'. handleToolCall P client (tool_name req) (tool_arguments req) = Inr r' \<and>
                  handleMCPRequest P C client req =
                    result_response (request_id req) (ToolResult r'))"
  proof
    assume a: "truthy (tool_name req) \<and> tool_name req = JStr s"
    obtain r' where r': "handleToolCall P client (tool_name req) (tool_arguments req) = Inr r'"
    proof (cases "handleToolCall P client (tool_name req) (tool_arguments req)")
      case (Inl e')
      then show ?thesis
        using a unfolding handleToolCall_raises by simp
    next
      case (Inr r')
      then show ?thesis using that by blast
    qed
    from a have named: "truthy (tool_name req)"
      by blast
    have "tool_call (tools P C client) (tool_name req) (tool_arguments req) = Inr r'"
      using r' by (simp add: tools_def)
    then have "handleMCPRequest_with (tools P C client) req =
                 result_response (request_id req) (ToolResult r')"
      using wrapped [of "tools P C client" r'] named by blast
    then show "\<exists>r'. handleToolCall P client (tool_name req) (tool_arguments req) = Inr r' \<and>
                  handleMCPRequest P C client req =
                    result_response (request_id req) (ToolResult r')"
      using r' by (simp add: handleMCPRequest_def)
  qed
  have raised: "truthy (tool_name req) \<and>
          handleToolCall P client (tool_name req) (tool_arguments req) = Inl e \<longrightarrow>
            handleMCPRequest P C client req =
              error_response (request_id req) (- 32603) (cannot_convert P)"
  proof
    assume a: "truthy (tool_name req) \<and>
          handleToolCall P client (tool_name req) (tool_arguments req) = Inl e"
    then have "js_String P (tool_name req) = Inl e"
      unfolding handleToolCall_raises by simp
    then have "e = JsError ''TypeError'' (cannot_convert P)"
      by (rule js_String_error(1))
    then show "handleMCPRequest P C client req =
              error_response (request_id req) (- 32603) (cannot_convert P)"
      using a assms
      by (simp add: handleMCPRequest_def handleMCPRequest_with_def dispatch_def Let_def tools_def)
  qed
  have names: "(params req = None \<longrightarrow> tool_name req = JUndefined) \<and>
         (params req = Some (JObj kv) \<and> map_of kv ''name'' = None \<longrightarrow> tool_name req = JUndefined) \<and>
         (params req = Some (JObj kv) \<and> map_of kv ''name'' = Some v \<longrightarrow> tool_name req = v) \<and>
         \<not> truthy JUndefined \<and> \<not> truthy JNull \<and> \<not> truthy (JStr []) \<and> \<not> truthy (JNum 0) \<and>
         \<not> truthy (JBool False)"
    by (auto simp: tool_name_def optional_prop_def nullish_def get_prop_def truthy_def)
  show ?thesis
    using missing wrapped [of T r] own string raised names by blast
qed

theorem tools_call_contract_witness:
  "handleMCPRequest plain_platform plain_catalog (answering_client JNull)
     (call_request (IdNumber 7) (JObj [])) =
     error_response (IdNumber 7) (- 32602) ''Missing tool name'' \<and>
   handleMCPRequest plain_platform plain_catalog (answering_client JNull)
     (call_request (IdNumber 6) (JObj [(''name'', JStr ''unknown_tool''), (''arguments'', JObj [])])) =
     result_response (IdNumber 6)
       (ToolResult \<lparr>content = [''Unknown tool: unknown_tool''], isError = Some True\<rparr>)"
proof -
  have m7: "rpc_method (call_request (IdNumber 7) (JObj [])) = ''tools/call''"
    by (simp add: call_request_def)
  have m6: "rpc_method (call_request (IdNumber 6)
              (JObj [(''name'', JStr ''unknown_tool''), (''arguments'', JObj [])])) = ''tools/call''"
    by (simp add: call_request_def)
  have i7: "request_id (call_request (IdNumber 7) (JObj [])) = IdNumber 7"
    by (simp add: call_request_def)
  have i6: "request_id (call_request (IdNumber 6)
              (JObj [(''name'', JStr ''unknown_tool''), (''arguments'', JObj [])])) = IdNumber 6"
    by (simp add: call_request_def)
  have n7: "tool_name (call_request (IdNumber 7) (JObj [])) = JUndefined"
    by (simp add: call_request_def tool_name_def optional_prop_def nullish_def get_prop_def)
  have n6: "tool_name (call_request (IdNumber 6)
              (JObj [(''name'', JStr ''unknown_tool''), (''arguments'', JObj [])])) = JStr ''unknown_tool''"
    by (simp add: call_request_def tool_name_def optional_prop_def nullish_def get_prop_def)
  have a6: "tool_arguments (call_request (IdNumber 6)
              (JObj [(''name'', JStr ''unknown_tool''), (''arguments'', JObj [])])) = JObj []"
    by (simp add: call_request_def tool_arguments_def nullish_def get_prop_def)
  have u: "handleToolCall plain_platform (answering_client JNull) (JStr ''unknown_tool'') (JObj []) =
             Inr \<lparr>content = [''Unknown tool: unknown_tool''], isError = Some True\<rparr>"
    by (simp add: handleToolCall_def has_property_string and_then_def tripTools_def objectTools_def
          proTools_def Object_prototype_names_def unknown_tool_def error_result_def)
  show ?thesis
    using tools_call_contract [OF m7, of "tools plain_platform plain_catalog (answering_client JNull)"
            "text_result []" plain_platform "answering_client JNull" plain_catalog]
          tools_call_contract [OF m6, of "tools plain_platform plain_catalog (answering_client JNull)"
            "\<lparr>content = [''Unknown tool: unknown_tool''], isError = Some True\<rparr>"
            plain_platform "answering_client JNull" plain_catalog]
          i7 i6 n7 n6 a6 u
    by (simp add: truthy_def handleMCPRequest_def)
qed

text \<open>
  C9 as stated fails: params whose \<^verbatim>\<open>name\<close> is present but empty get the error -32602,
  and the router's result for that name is not wrapped; and for a name that is present
  and truthy but cannot be converted to a property key (an object with a property
  \<^verbatim>\<open>toString\<close>) the router raises, and the response is the error -32603, not a result.
\<close>

theorem empty_name_is_missing:
  "handleMCPRequest plain_platform plain_catalog (answering_client JNull)
     (call_request (IdNumber 7) (JObj [(''name'', JStr []), (''arguments'', JObj [])])) =
     \<lparr>jsonrpc = ''2.0'', response_id = IdNumber 7, result = None,
      error = Some \<lparr>code = - 32602, message = ''Missing tool name''\<rparr>\<rparr> \<and>
   handleToolCall plain_platform (answering_client JNull) (JStr []) (JObj []) =
     Inr \<lparr>content = [''Unknown tool: ''], isError = Some True\<rparr> \<and>
   handleMCPRequest plain_platform plain_catalog (answering_client JNull)
     (call_request (IdNumber 8)
        (JObj [(''name'', JObj [(''toString'', JStr ''x'')]), (''arguments'', JObj [])])) =
     \<lparr>jsonrpc = ''2.0'', response_id = IdNumber 8, result = None,
      error = Some \<lparr>code = - 32603, message = ''Cannot convert object to primitive value''\<rparr>\<rparr>"
  by (simp add: handleMCPRequest_def handleMCPRequest_with_def dispatch_def Let_def tools_def
        call_request_def tool_name_def tool_arguments_def optional_prop_def nullish_def get_prop_def
        truthy_def error_response_def handleToolCall_def has_property_def and_then_def
        tripTools_def objectTools_def proTools_def Object_prototype_names_def unknown_tool_def
        error_result_def plain_platform_def)

end
